theory Spec2Isabelle
  imports Complex_Main
begin

section \<open>Deep Focus Mode: the background service worker of the browser extension\<close>

text \<open>
  The development embeds the background script of the extension (the second script of
  \<^verbatim>\<open>browser-extension/src/content/content.js\<close>, from the constant
  \<^verbatim>\<open>API_BASE_URL\<close> on): the decision cache \<^verbatim>\<open>blockCache\<close>, the delay table
  \<^verbatim>\<open>activeDelays\<close>, the flag \<^verbatim>\<open>extensionEnabled\<close>, and the listeners that read and
  write them. Its conventions:
  \<^item> the module's variables and the two \<^verbatim>\<open>chrome.storage\<close> areas are the fields of one
    record, passed in and returned;
  \<^item> every call of a browser API that leaves the worker (\<^verbatim>\<open>fetch\<close>,
    \<^verbatim>\<open>chrome.tabs.update\<close>, \<^verbatim>\<open>console.error\<close>, ...) is appended to the field
    \<open>trace\<close>, in the order of the calls;
  \<^item> what the outside answers is an argument: the clock value \<open>now\<close> that
    \<^verbatim>\<open>Date.now()\<close> returns when the listener starts, the outcome of the
    \<^verbatim>\<open>fetch\<close> the listener awaits, and the milliseconds \<open>elapsed\<close> until that
    outcome arrives;
  \<^item> times are integers (milliseconds since the epoch), as \<^verbatim>\<open>Date.now()\<close> gives them;
    the numbers of a decision are integers (a decision that lacks the number its action
    uses is outside the model), and \<^verbatim>\<open>Math.ceil(a / b)\<close> is the ceiling of the exact
    quotient, which is what the floating-point operations give for integers of the size
    of a clock value;
  \<^item> a URL is carried parsed, as the object \<^verbatim>\<open>new URL(...)\<close> builds from the strings
    the browser hands over (\<^verbatim>\<open>details.url\<close> under the listener's http/https filter,
    \<^verbatim>\<open>window.location.href\<close> in a content script's message);
  \<^item> a callback of \<^verbatim>\<open>chrome.storage.local.get\<close> runs as one step with the call
    that registers it.
\<close>

subsection \<open>Data\<close>

record url =
  href :: string
  protocol :: string
  hostname :: string

text \<open>
  The JSON object that \<^verbatim>\<open>POST /api/check-block\<close> answers. \<open>should_block\<close> is a
  boolean, or \<open>None\<close> when the field is absent; \<open>reminder_message\<close> is a string, or
  \<open>None\<close> when absent.
\<close>

record decision =
  should_block :: "bool option"
  action :: string
  delay_seconds :: int
  reminder_message :: "string option"
  remaining_focus_time :: int

record cache_entry =
  decision :: decision
  timestamp :: int

record delay_entry =
  expiresAt :: int

record session =
  is_actively_coding :: bool

text \<open>
  An entry of the stored list \<^verbatim>\<open>blockEvents\<close>; \<open>ev_timestamp\<close> is the instant whose
  ISO rendering the source stores.
\<close>

record event =
  ev_url :: string
  ev_action :: string
  ev_timestamp :: int

datatype request =
    CheckBlockReq string
  | OverrideReq string int
  | StatusReq
  | RulesReq
  | StatsReq

text \<open>
  The three extension pages a tab is sent to, with their query parameters: the blocked
  URL, the number (\<^verbatim>\<open>seconds\<close>, \<^verbatim>\<open>minutes\<close>) and the message.
\<close>

datatype page =
    BlockedPage string string
  | DelayPage string int string
  | FocusPage string int string

datatype effect =
    Fetch request
  | TabsUpdate int page
  | ConsoleError string
  | SetBadgeText string
  | SetBadgeBackgroundColor string
  | ContextMenusCreate string
  | NotificationsCreate string
  | SetInterval int

text \<open>
  What a \<^verbatim>\<open>fetch\<close> comes to: the promise rejects (\<open>NetworkError\<close>), or it resolves
  with a status and a body; the body is \<open>None\<close> when \<^verbatim>\<open>response.json()\<close> throws.
\<close>

datatype 'a fetch_result =
    NetworkError
  | Response nat "'a option"

record state =
  blockCache :: "string \<rightharpoonup> cache_entry"
  activeDelays :: "string \<rightharpoonup> delay_entry"
  extensionEnabled :: bool
  currentSession :: "session option"
  sync_enabled :: "bool option"
  sync_apiUrl :: "string option"
  local_blockEvents :: "event list option"
  trace :: "effect list"

record details =
  frameId :: int
  tabId :: int
  url :: url

datatype message =
    GetStatus
  | ToggleExtension
  | OverrideBlock url
  | GetRules
  | GetStats

datatype response =
    StatusResponse bool "session option"
  | EnabledResponse bool
  | SuccessResponse
  | JsonResponse "string option"

subsection \<open>Constants and JavaScript helpers\<close>

definition API_BASE_URL :: string where
  "API_BASE_URL = ''http://localhost:5000''"

definition CHECK_INTERVAL :: int where
  "CHECK_INTERVAL = 5000"

definition CACHE_DURATION :: int where
  "CACHE_DURATION = 30000"

text \<open>\<^verbatim>\<open>response.ok\<close>: the status is in the range 200 to 299.\<close>

definition ok :: "nat \<Rightarrow> bool" where
  "ok st = (200 \<le> st \<and> st \<le> 299)"

text \<open>Truthiness of an optional boolean and of an optional string.\<close>

definition truthy :: "bool option \<Rightarrow> bool" where
  "truthy b = (b = Some True)"

fun truthy_string :: "string option \<Rightarrow> bool" where
  "truthy_string None = False"
| "truthy_string (Some m) = (m \<noteq> [])"

text \<open>\<^verbatim>\<open>message || dflt\<close>.\<close>

fun or_default :: "string option \<Rightarrow> string \<Rightarrow> string" where
  "or_default None dflt = dflt"
| "or_default (Some m) dflt = (if m = [] then dflt else m)"

text \<open>The decimal rendering of a number inside a template literal.\<close>

fun string_of_nat :: "nat \<Rightarrow> string" where
  "string_of_nat n =
     (if n < 10 then [''0123456789'' ! n]
      else string_of_nat (n div 10) @ [''0123456789'' ! (n mod 10)])"

declare string_of_nat.simps [simp del]

definition string_of_int :: "int \<Rightarrow> string" where
  "string_of_int i =
     (if i < 0 then CHR ''-'' # string_of_nat (nat (- i)) else string_of_nat (nat i))"

definition emit :: "effect \<Rightarrow> state \<Rightarrow> state" where
  "emit e s = s\<lparr>trace := trace s @ [e]\<rparr>"

subsection \<open>The module's start\<close>

text \<open>
  The top-level declarations run each time the service worker starts: two empty maps,
  \<^verbatim>\<open>extensionEnabled = true\<close>, \<^verbatim>\<open>currentSession = null\<close>. The storage areas and the
  history of effects are the browser's and stay.
\<close>

definition worker_start :: "state \<Rightarrow> state" where
  "worker_start s =
     s\<lparr>blockCache := Map.empty, activeDelays := Map.empty,
       extensionEnabled := True, currentSession := None\<rparr>"

definition startMonitoring :: "state \<Rightarrow> state" where
  "startMonitoring s = emit (SetInterval CHECK_INTERVAL) s"

definition onInstalled :: "state \<Rightarrow> state" where
  "onInstalled s =
     (let s1 = (if \<not> truthy (sync_enabled s) then s\<lparr>sync_enabled := Some True\<rparr> else s);
          s2 = (if \<not> truthy_string (sync_apiUrl s1)
                then s1\<lparr>sync_apiUrl := Some API_BASE_URL\<rparr> else s1);
          s3 = emit (ContextMenusCreate ''toggle-focus-mode'') s2
      in startMonitoring s3)"

subsection \<open>The decision cache and the authority call\<close>

text \<open>
  The test \<^verbatim>\<open>cached && Date.now() - cached.timestamp < CACHE_DURATION\<close> of
  \<^verbatim>\<open>checkBlock\<close>, with the decision it returns.
\<close>

definition cache_hit :: "state \<Rightarrow> int \<Rightarrow> string \<Rightarrow> decision option" where
  "cache_hit s now u =
     (case blockCache s u of
        None \<Rightarrow> None
      | Some cached \<Rightarrow>
          if now - timestamp cached < CACHE_DURATION then Some (decision cached) else None)"

definition check_failed :: "state \<Rightarrow> state" where
  "check_failed s = emit (ConsoleError ''Failed to check block status:'') s"

text \<open>
  \<^verbatim>\<open>checkBlock(url)\<close> returns the decision (\<open>None\<close> for \<^verbatim>\<open>null\<close>), the clock
  value when it returns, and the state.
\<close>

definition checkBlock ::
  "state \<Rightarrow> int \<Rightarrow> string \<Rightarrow> decision fetch_result \<Rightarrow> nat \<Rightarrow> decision option \<times> int \<times> state"
where
  "checkBlock s now u res elapsed =
     (case cache_hit s now u of
        Some d \<Rightarrow> (Some d, now, s)
      | None \<Rightarrow>
          (let s1 = emit (Fetch (CheckBlockReq u)) s;
               t = now + int elapsed
           in case res of
                NetworkError \<Rightarrow> (None, t, check_failed s1)
              | Response st body \<Rightarrow>
                  if \<not> ok st then (None, t, check_failed s1)
                  else (case body of
                          None \<Rightarrow> (None, t, check_failed s1)
                        | Some d \<Rightarrow>
                            (Some d, t,
                             s1\<lparr>blockCache :=
                                  (blockCache s1)(u \<mapsto> \<lparr>decision = d, timestamp = t\<rparr>)\<rparr>))))"

subsection \<open>The event log\<close>

definition logBlockEvent :: "state \<Rightarrow> int \<Rightarrow> string \<Rightarrow> string \<Rightarrow> state" where
  "logBlockEvent s now u a =
     (let ev = \<lparr>ev_url = u, ev_action = a, ev_timestamp = now\<rparr>;
          events = (case local_blockEvents s of None \<Rightarrow> [] | Some es \<Rightarrow> es) @ [ev];
          events' = (if length events > 100 then tl events else events)
      in s\<lparr>local_blockEvents := Some events'\<rparr>)"

definition logOverride :: "state \<Rightarrow> int \<Rightarrow> string \<Rightarrow> 'a fetch_result \<Rightarrow> state" where
  "logOverride s now u res =
     (let s1 = emit (Fetch (OverrideReq u now)) s
      in case res of
           NetworkError \<Rightarrow> emit (ConsoleError ''Failed to log override:'') s1
         | Response st body \<Rightarrow> s1)"

subsection \<open>The enforcement router\<close>

definition showBlockPage :: "state \<Rightarrow> int \<Rightarrow> string \<Rightarrow> string option \<Rightarrow> state" where
  "showBlockPage s tab blockedUrl msg =
     emit (TabsUpdate tab
       (BlockedPage blockedUrl (or_default msg ''This site is blocked during focus time.''))) s"

definition showDelayPage :: "state \<Rightarrow> int \<Rightarrow> string \<Rightarrow> int \<Rightarrow> string option \<Rightarrow> state" where
  "showDelayPage s tab blockedUrl delaySeconds msg =
     emit (TabsUpdate tab
       (DelayPage blockedUrl delaySeconds (or_default msg ''Access will be granted soon.''))) s"

definition showFocusRequirement ::
  "state \<Rightarrow> int \<Rightarrow> string \<Rightarrow> int \<Rightarrow> string option \<Rightarrow> state"
where
  "showFocusRequirement s tab blockedUrl remainingSeconds msg =
     (let remainingMinutes = \<lceil>real_of_int remainingSeconds / 60\<rceil>
      in emit (TabsUpdate tab
           (FocusPage blockedUrl remainingMinutes
              (or_default msg
                 (''Focus for '' @ string_of_int remainingMinutes @
                  '' more minutes to unlock this site.'')))) s)"

text \<open>
  The test \<^verbatim>\<open>existingDelay && Date.now() < existingDelay.expiresAt\<close> of the
  \<^verbatim>\<open>delay\<close> case, with the entry it found.
\<close>

definition still_delayed :: "state \<Rightarrow> int \<Rightarrow> string \<Rightarrow> delay_entry option" where
  "still_delayed s now delayKey =
     (case activeDelays s delayKey of
        None \<Rightarrow> None
      | Some existingDelay \<Rightarrow>
          if now < expiresAt existingDelay then Some existingDelay else None)"

text \<open>
  The source is given \<^verbatim>\<open>url.href\<close> and parses it again for the host name; the model
  is given the parsed URL.
\<close>

definition handleBlockedNavigation :: "state \<Rightarrow> int \<Rightarrow> int \<Rightarrow> url \<Rightarrow> decision \<Rightarrow> state" where
  "handleBlockedNavigation s now tab u d =
     (let s1 =
        (if action d = ''block'' then
           showBlockPage s tab (href u) (reminder_message d)
         else if action d = ''delay'' then
           (let delayKey = hostname u
            in case still_delayed s now delayKey of
                 Some existingDelay \<Rightarrow>
                   (let remainingSeconds =
                          \<lceil>real_of_int (expiresAt existingDelay - now) / 1000\<rceil>
                    in showDelayPage s tab (href u) remainingSeconds (reminder_message d))
               | None \<Rightarrow>
                   showDelayPage
                     (s\<lparr>activeDelays :=
                          (activeDelays s)(delayKey \<mapsto>
                             \<lparr>expiresAt = now + delay_seconds d * 1000\<rparr>)\<rparr>)
                     tab (href u) (delay_seconds d) (reminder_message d))
         else if action d = ''conditional'' then
           showFocusRequirement s tab (href u) (remaining_focus_time d) (reminder_message d)
         else s)
      in logBlockEvent s1 now (href u) (action d))"

subsection \<open>The navigation listener\<close>

text \<open>
  The listener is registered with the filter \<^verbatim>\<open>schemes: ['http', 'https']\<close>, so the
  browser calls it for those schemes only: the first test below.
\<close>

definition onBeforeNavigate ::
  "state \<Rightarrow> int \<Rightarrow> details \<Rightarrow> decision fetch_result \<Rightarrow> nat \<Rightarrow> state"
where
  "onBeforeNavigate s now dt res elapsed =
     (if protocol (url dt) \<noteq> ''http:'' \<and> protocol (url dt) \<noteq> ''https:'' then s
      else if frameId dt \<noteq> 0 \<or> \<not> extensionEnabled s then s
      else
        (let domain = hostname (url dt)
         in if domain = ''localhost'' \<or> domain = ''127.0.0.1'' \<or>
               protocol (url dt) = ''chrome-extension:'' then s
            else
              (case checkBlock s now (href (url dt)) res elapsed of
                 (None, t, s1) \<Rightarrow> s1
               | (Some d, t, s1) \<Rightarrow>
                   if truthy (should_block d)
                   then handleBlockedNavigation s1 t (tabId dt) (url dt) d
                   else s1)))"

subsection \<open>The status poller, the badge, the alarm and the context menu\<close>

definition updateBadge :: "bool \<Rightarrow> state \<Rightarrow> state" where
  "updateBadge isActive s =
     (if isActive then emit (SetBadgeBackgroundColor ''#4CAF50'') (emit (SetBadgeText ''ON'') s)
      else emit (SetBadgeText []) s)"

definition statusTick :: "state \<Rightarrow> session fetch_result \<Rightarrow> state" where
  "statusTick s res =
     (let s1 = emit (Fetch StatusReq) s
      in case res of
           NetworkError \<Rightarrow> emit (ConsoleError ''Failed to get session status:'') s1
         | Response st body \<Rightarrow>
             if ok st then
               (case body of
                  None \<Rightarrow> emit (ConsoleError ''Failed to get session status:'') s1
                | Some sess \<Rightarrow>
                    updateBadge (is_actively_coding sess) (s1\<lparr>currentSession := Some sess\<rparr>))
             else s1)"

definition onAlarm :: "state \<Rightarrow> string \<Rightarrow> state" where
  "onAlarm s name =
     (if take 6 name = ''delay-'' then
        (let domain = drop 6 name
         in emit (NotificationsCreate (domain @ '' is now accessible.''))
              (s\<lparr>activeDelays := (activeDelays s)(domain := None)\<rparr>))
      else s)"

definition onClicked :: "state \<Rightarrow> string \<Rightarrow> state" where
  "onClicked s menuItemId =
     (if menuItemId = ''toggle-focus-mode'' then
        (let enabled = \<not> extensionEnabled s;
             s1 = s\<lparr>extensionEnabled := enabled, sync_enabled := Some enabled\<rparr>
         in updateBadge
              (enabled \<and> (case currentSession s1 of
                             None \<Rightarrow> False
                           | Some sess \<Rightarrow> is_actively_coding sess)) s1)
      else s)"

subsection \<open>Messages from the content scripts and the popup\<close>

text \<open>
  \<^verbatim>\<open>fetchRules\<close> and \<^verbatim>\<open>fetchStats\<close> hand the body on as it is; the model keeps it
  as text. The first answers \<^verbatim>\<open>[]\<close> when it has no body, the second \<^verbatim>\<open>null\<close>.
\<close>

definition fetchJson ::
  "request \<Rightarrow> string \<Rightarrow> string option \<Rightarrow> state \<Rightarrow> string fetch_result \<Rightarrow> string option \<times> state"
where
  "fetchJson req what dflt s res =
     (let s1 = emit (Fetch req) s
      in case res of
           NetworkError \<Rightarrow> (dflt, emit (ConsoleError what) s1)
         | Response st body \<Rightarrow>
             if ok st then
               (case body of
                  None \<Rightarrow> (dflt, emit (ConsoleError what) s1)
                | Some j \<Rightarrow> (Some j, s1))
             else (dflt, s1))"

definition fetchRules :: "state \<Rightarrow> string fetch_result \<Rightarrow> string option \<times> state" where
  "fetchRules = fetchJson RulesReq ''Failed to fetch rules:'' (Some ''[]'')"

definition fetchStats :: "state \<Rightarrow> string fetch_result \<Rightarrow> string option \<times> state" where
  "fetchStats = fetchJson StatsReq ''Failed to fetch stats:'' None"

fun onMessage :: "state \<Rightarrow> int \<Rightarrow> message \<Rightarrow> string fetch_result \<Rightarrow> response \<times> state" where
  "onMessage s now GetStatus res =
     (StatusResponse (extensionEnabled s) (currentSession s), s)"
| "onMessage s now ToggleExtension res =
     (let enabled = \<not> extensionEnabled s
      in (EnabledResponse enabled, s\<lparr>extensionEnabled := enabled, sync_enabled := Some enabled\<rparr>))"
| "onMessage s now (OverrideBlock u) res =
     (let domain = hostname u;
          s1 = s\<lparr>activeDelays := (activeDelays s)(domain := None)\<rparr>;
          s2 = s1\<lparr>blockCache := (blockCache s1)(href u := None)\<rparr>
      in (SuccessResponse, logOverride s2 now (href u) res))"
| "onMessage s now GetRules res =
     (case fetchRules s res of (j, s1) \<Rightarrow> (JsonResponse j, s1))"
| "onMessage s now GetStats res =
     (case fetchStats s res of (j, s1) \<Rightarrow> (JsonResponse j, s1))"

subsection \<open>Observations of a state\<close>

text \<open>The stored event list, as \<^verbatim>\<open>result.blockEvents || []\<close> reads it.\<close>

definition events_of :: "state \<Rightarrow> event list" where
  "events_of s = (case local_blockEvents s of None \<Rightarrow> [] | Some es \<Rightarrow> es)"

text \<open>The tab redirections and the decision queries among a list of effects, in order.\<close>

fun redirects :: "effect list \<Rightarrow> (int \<times> page) list" where
  "redirects [] = []"
| "redirects (TabsUpdate tab p # es) = (tab, p) # redirects es"
| "redirects (e # es) = redirects es"

fun authority_calls :: "effect list \<Rightarrow> string list" where
  "authority_calls [] = []"
| "authority_calls (Fetch (CheckBlockReq u) # es) = u # authority_calls es"
| "authority_calls (e # es) = authority_calls es"

text \<open>The last \<open>n\<close> elements of a list.\<close>

definition most_recent :: "nat \<Rightarrow> 'a list \<Rightarrow> 'a list" where
  "most_recent n xs = drop (length xs - n) xs"

text \<open>
  The navigations the listener does not drop: the negation of its three early returns
  (the scheme filter, \<^verbatim>\<open>details.frameId !== 0 || !extensionEnabled\<close>, and the
  loopback hosts).
\<close>

definition qualifies :: "state \<Rightarrow> details \<Rightarrow> bool" where
  "qualifies s dt =
     ((protocol (url dt) = ''http:'' \<or> protocol (url dt) = ''https:'') \<and>
      frameId dt = 0 \<and> extensionEnabled s \<and>
      hostname (url dt) \<noteq> ''localhost'' \<and> hostname (url dt) \<noteq> ''127.0.0.1'')"

text \<open>
  The outcomes of the decision query that end in the \<^verbatim>\<open>catch\<close> of
  \<^verbatim>\<open>checkBlock\<close>: the fetch rejects, the status is not a success, or the body does
  not parse.
\<close>

definition call_fails :: "decision fetch_result \<Rightarrow> bool" where
  "call_fails res =
     (case res of
        NetworkError \<Rightarrow> True
      | Response st body \<Rightarrow> (if ok st then body = None else True))"

subsection \<open>Runs and scenarios\<close>

text \<open>
  A sequence of calls \<^verbatim>\<open>logBlockEvent(url, action)\<close>, each with the clock value it
  reads, and the event each call builds.
\<close>

fun record_all :: "state \<Rightarrow> (int \<times> string \<times> string) list \<Rightarrow> state" where
  "record_all s [] = s"
| "record_all s ((now, u, a) # calls) = record_all (logBlockEvent s now u a) calls"

definition event_of :: "int \<times> string \<times> string \<Rightarrow> event" where
  "event_of c = (case c of (now, u, a) \<Rightarrow> \<lparr>ev_url = u, ev_action = a, ev_timestamp = now\<rparr>)"

text \<open>The worker on a fresh profile: the module's initial values and empty storage.\<close>

definition initial_state :: state where
  "initial_state =
     \<lparr>blockCache = Map.empty, activeDelays = Map.empty, extensionEnabled = True,
      currentSession = None, sync_enabled = None, sync_apiUrl = None,
      local_blockEvents = None, trace = []\<rparr>"

definition numbered_call :: "nat \<Rightarrow> int \<times> string \<times> string" where
  "numbered_call i = (int i, ''https://twitter.com/'', ''block'')"

definition twitter :: url where
  "twitter = \<lparr>href = ''https://twitter.com/'', protocol = ''https:'', hostname = ''twitter.com''\<rparr>"

definition reddit :: url where
  "reddit = \<lparr>href = ''https://reddit.com/'', protocol = ''https:'', hostname = ''reddit.com''\<rparr>"

definition to_reddit :: details where
  "to_reddit = \<lparr>frameId = 0, tabId = 1, url = reddit\<rparr>"

definition to_twitter :: details where
  "to_twitter = \<lparr>frameId = 0, tabId = 7, url = twitter\<rparr>"

text \<open>
  A decision without a message; the number is both its \<open>delay_seconds\<close> and its
  \<open>remaining_focus_time\<close>.
\<close>

definition verdict :: "bool option \<Rightarrow> string \<Rightarrow> int \<Rightarrow> decision" where
  "verdict sb a secs =
     \<lparr>should_block = sb, action = a, delay_seconds = secs,
      reminder_message = None, remaining_focus_time = secs\<rparr>"

text \<open>
  A first visit to reddit.com at time 0 on a fresh profile, answered with a delay of 300
  seconds; the same with a delay of 10 seconds.
\<close>

definition first_visit :: state where
  "first_visit =
     onBeforeNavigate initial_state 0 to_reddit
       (Response 200 (Some (verdict (Some True) ''delay'' 300))) 0"

definition short_visit :: state where
  "short_visit =
     onBeforeNavigate initial_state 0 to_reddit
       (Response 200 (Some (verdict (Some True) ''delay'' 10))) 0"

text \<open>
  A fresh install whose user then switches the extension off from the popup.
\<close>

definition switched_off :: state where
  "switched_off = snd (onMessage (onInstalled initial_state) 1000 ToggleExtension NetworkError)"

section \<open>Properties\<close>

subsection \<open>Auxiliary facts\<close>

lemmas run_defs =
  onBeforeNavigate_def checkBlock_def cache_hit_def check_failed_def emit_def
  handleBlockedNavigation_def still_delayed_def showBlockPage_def showDelayPage_def
  showFocusRequirement_def logBlockEvent_def logOverride_def ok_def truthy_def
  CACHE_DURATION_def Let_def

lemmas scenario_defs =
  initial_state_def twitter_def reddit_def to_twitter_def to_reddit_def verdict_def

lemma most_recent_append: "most_recent n (most_recent n xs @ ys) = most_recent n (xs @ ys)"
proof (cases "length xs \<le> n")
  case True
  then show ?thesis by (simp add: most_recent_def)
next
  case False
  define k where "k = length xs - n"
  have len: "length xs = k + n" using False by (simp add: k_def)
  have "most_recent n (drop k xs @ ys) = drop (length ys) (drop k xs @ ys)"
    by (simp add: most_recent_def len)
  also have "\<dots> = drop (length ys) (drop k (xs @ ys))"
    by (simp add: len)
  also have "\<dots> = drop (length ys + k) (xs @ ys)"
    by (simp only: drop_drop)
  also have "\<dots> = most_recent n (xs @ ys)"
    by (simp add: most_recent_def len add.commute)
  finally show ?thesis by (simp add: most_recent_def k_def)
qed

lemma length_most_recent: "length (most_recent n xs) \<le> n"
  by (simp add: most_recent_def)

lemma redirects_append: "redirects (xs @ ys) = redirects xs @ redirects ys"
  by (induction xs rule: redirects.induct) simp_all

lemma authority_calls_append: "authority_calls (xs @ ys) = authority_calls xs @ authority_calls ys"
  by (induction xs rule: authority_calls.induct) simp_all

lemma neg_div_neg:
  fixes a b :: int
  assumes "0 < b"
  shows "- ((- a) div b) = (a + b - 1) div b"
proof (cases "a mod b = 0")
  case True
  then obtain q where a: "a = b * q" by (auto simp: mod_eq_0_iff_dvd)
  have "(b * q + (b - 1)) div b = q + (b - 1) div b"
    using assms by simp
  moreover have "(b - 1) div b = 0"
    using assms by (simp add: div_pos_pos_trivial)
  moreover have "(- (b * q)) div b = - q" 
    using assms by (metis mult_minus_right nonzero_mult_div_cancel_left less_irrefl)
  ultimately show ?thesis using a by (simp add: algebra_simps)
next
  case False
  define q r where "q = a div b" and "r = a mod b"
  have a: "a = b * q + r" by (simp add: q_def r_def)
  have r: "0 < r" "r < b"
  proof -
    have "0 \<le> a mod b" using assms by (rule pos_mod_sign)
    with False show "0 < r" by (simp add: r_def)
    show "r < b" using assms by (simp add: r_def)
  qed
  have "(- a) div b = - q - 1"
    using False assms by (simp add: zdiv_zminus1_eq_if q_def)
  moreover have "(a + b - 1) div b = q + 1"
  proof -
    have e: "a + b - 1 = b * (q + 1) + (r - 1)" using a by (simp add: algebra_simps)
    have "(b * (q + 1) + (r - 1)) div b = (q + 1) + (r - 1) div b"
      using assms by simp
    moreover have "(r - 1) div b = 0" using r by (simp add: div_pos_pos_trivial)
    ultimately show ?thesis unfolding e by simp
  qed
  ultimately show ?thesis by simp
qed


lemma ceiling_div_pos:
  fixes a b :: int
  assumes "0 < b"
  shows "\<lceil>real_of_int a / real_of_int b\<rceil> = (a + b - 1) div b"
  using neg_div_neg [OF assms, of a] by (simp add: ceiling_divide_eq_div)

lemma ceiling_div_60: "\<lceil>real_of_int a / 60\<rceil> = (a + 59) div 60"
  using ceiling_div_pos [of 60 a] by simp

lemma ceiling_div_1000: "\<lceil>real_of_int a / 1000\<rceil> = (a + 999) div 1000"
  using ceiling_div_pos [of 1000 a] by simp

lemma trace_logBlockEvent: "trace (logBlockEvent s now u a) = trace s"
  by (simp add: logBlockEvent_def Let_def)

lemma activeDelays_logBlockEvent: "activeDelays (logBlockEvent s now u a) = activeDelays s"
  by (simp add: logBlockEvent_def Let_def)

lemma blockCache_logBlockEvent: "blockCache (logBlockEvent s now u a) = blockCache s"
  by (simp add: logBlockEvent_def Let_def)

lemma ceiling_div_bounds:
  fixes a b :: int
  assumes "0 < b"
  shows "b * ((a + b - 1) div b - 1) < a \<and> a \<le> b * ((a + b - 1) div b)"
proof -
  define q r where "q = (a + b - 1) div b" and "r = (a + b - 1) mod b"
  have e: "a + b - 1 = b * q + r" by (simp add: q_def r_def)
  have "0 \<le> r" using assms by (simp add: r_def)
  moreover have "r < b" using assms by (simp add: r_def)
  moreover have "b * (q - 1) = a - 1 - r" using e by (simp add: algebra_simps)
  moreover have "b * q = a + b - 1 - r" using e by simp
  ultimately show ?thesis unfolding q_def [symmetric] by simp
qed

lemma events_of_emit: "events_of (emit e s) = events_of s"
  by (simp add: events_of_def emit_def)

lemma onBeforeNavigate_qualifies:
  assumes "qualifies s dt"
  shows "onBeforeNavigate s now dt res elapsed =
           (case checkBlock s now (href (url dt)) res elapsed of
              (None, t, s1) \<Rightarrow> s1
            | (Some d, t, s1) \<Rightarrow>
                if truthy (should_block d)
                then handleBlockedNavigation s1 t (tabId dt) (url dt) d
                else s1)"
  using assms by (auto simp: qualifies_def onBeforeNavigate_def Let_def)

lemma onBeforeNavigate_filtered:
  assumes "\<not> qualifies s dt"
  shows "onBeforeNavigate s now dt res elapsed = s"
  using assms by (auto simp: qualifies_def onBeforeNavigate_def Let_def)

lemma checkBlock_hit:
  assumes "cache_hit s now u = Some d"
  shows "checkBlock s now u res elapsed = (Some d, now, s)"
  using assms by (simp add: checkBlock_def)

lemma checkBlock_miss_fails:
  assumes "cache_hit s now u = None" and "call_fails res"
  shows "checkBlock s now u res elapsed =
           (None, now + int elapsed, check_failed (emit (Fetch (CheckBlockReq u)) s))"
  using assms by (auto simp: checkBlock_def call_fails_def Let_def split: fetch_result.splits option.splits if_splits)

lemma checkBlock_miss_ok:
  assumes "cache_hit s now u = None" and "ok st"
  shows "checkBlock s now u (Response st (Some d)) elapsed =
           (Some d, now + int elapsed,
            (emit (Fetch (CheckBlockReq u)) s)
              \<lparr>blockCache := (blockCache s)(u \<mapsto> \<lparr>decision = d, timestamp = now + int elapsed\<rparr>)\<rparr>)"
  using assms by (simp add: checkBlock_def Let_def emit_def)

lemma checkBlock_frame:
  assumes "checkBlock s now u res elapsed = (r, t, s1)"
  shows "redirects (trace s1) = redirects (trace s) \<and>
         local_blockEvents s1 = local_blockEvents s \<and>
         activeDelays s1 = activeDelays s \<and>
         extensionEnabled s1 = extensionEnabled s \<and> now \<le> t"
  using assms
  by (auto simp: checkBlock_def check_failed_def emit_def Let_def redirects_append
      split: option.splits fetch_result.splits if_splits)

lemma checkBlock_calls:
  assumes "checkBlock s now u res elapsed = (r, t, s1)"
  shows "authority_calls (trace s1) =
           authority_calls (trace s) @ (if cache_hit s now u = None then [u] else [])"
proof (cases "cache_hit s now u")
  case None
  with assms show ?thesis
    by (auto simp: checkBlock_def check_failed_def emit_def Let_def authority_calls_append
        split: option.splits fetch_result.splits if_splits)
next
  case (Some d)
  then have "checkBlock s now u res elapsed = (Some d, now, s)"
    by (simp add: checkBlock_def)
  with assms have "s1 = s" by simp
  then show ?thesis using Some by simp
qed

lemma handleBlockedNavigation_calls:
  "authority_calls (trace (handleBlockedNavigation s now tab u d)) = authority_calls (trace s)"
  by (auto simp: handleBlockedNavigation_def trace_logBlockEvent showBlockPage_def
      showDelayPage_def showFocusRequirement_def emit_def Let_def authority_calls_append
      split: option.splits)

lemma cache_hit_stays_missed:
  assumes "cache_hit s now u = None" and "now \<le> now2" and "blockCache s' = blockCache s"
  shows "cache_hit s' now2 u = None"
  using assms by (auto simp: cache_hit_def CACHE_DURATION_def split: option.splits if_splits)

subsection \<open>The event log\<close>

lemma events_of_logBlockEvent:
  "events_of (logBlockEvent s now u a) =
     most_recent 100 (events_of s @ [event_of (now, u, a)])" if "length (events_of s) \<le> 100"
proof (cases "length (events_of s) = 100")
  case True
  then obtain e es where es: "events_of s = e # es" and "length es = 99"
    by (cases "events_of s") auto
  then show ?thesis
    by (auto simp: events_of_def logBlockEvent_def event_of_def most_recent_def Let_def
        split: option.splits)
next
  case False
  with that have "length (events_of s) < 100" by simp
  then show ?thesis
    by (auto simp: events_of_def logBlockEvent_def event_of_def most_recent_def Let_def
        split: option.splits)
qed

lemma events_of_record_all:
  "length (events_of s) \<le> 100 \<Longrightarrow>
   events_of (record_all s calls) = most_recent 100 (events_of s @ map event_of calls)"
proof (induction calls arbitrary: s)
  case Nil
  then show ?case by (simp add: most_recent_def)
next
  case (Cons c calls)
  obtain now u a where c: "c = (now, u, a)" by (cases c)
  have step: "events_of (logBlockEvent s now u a) = most_recent 100 (events_of s @ [event_of c])"
    using Cons.prems c by (simp add: events_of_logBlockEvent)
  have "events_of (record_all s (c # calls)) =
        most_recent 100 (events_of (logBlockEvent s now u a) @ map event_of calls)"
    using Cons.IH [of "logBlockEvent s now u a"] step c by (simp add: length_most_recent)
  also have "\<dots> = most_recent 100 ((events_of s @ [event_of c]) @ map event_of calls)"
    unfolding step by (rule most_recent_append)
  finally show ?case by simp
qed

text \<open>
  Claim C7. Whatever the sequence of calls of \<^verbatim>\<open>logBlockEvent\<close>, a log that held at
  most 100 events before holds, after the last call, the 100 most recent of the old
  events followed by the new ones, in their order: never more than 100, the oldest
  dropped first. After 101 calls on an empty log the first event is gone and the other
  100 remain in order, as the instance after the theorem shows.
\<close>

theorem event_log_bounded_ring_buffer:
  assumes "length (events_of s) \<le> 100"
  shows "events_of (record_all s calls) = most_recent 100 (events_of s @ map event_of calls) \<and>
         length (events_of (record_all s calls)) \<le> 100"
  using assms by (simp add: events_of_record_all length_most_recent)

theorem event_log_bounded_ring_buffer_witness:
  "length (events_of initial_state) \<le> 100 \<and>
   events_of (record_all initial_state (map numbered_call [0..<101])) =
     map (event_of \<circ> numbered_call) [1..<101] \<and>
   length (events_of (record_all initial_state (map numbered_call [0..<101]))) = 100"
proof -
  have e: "events_of initial_state = []"
    by (simp add: events_of_def initial_state_def)
  have "events_of (record_all initial_state (map numbered_call [0..<101])) =
        most_recent 100 (map event_of (map numbered_call [0..<101]))"
    using event_log_bounded_ring_buffer [of initial_state "map numbered_call [0..<101]"] e
    by simp
  also have "\<dots> = map (event_of \<circ> numbered_call) [1..<101]"
    by (simp add: most_recent_def drop_map)
  finally show ?thesis using e by simp
qed

lemma handleBlockedNavigation_events:
  "events_of (handleBlockedNavigation s now tab u d) =
     (if 100 \<le> length (events_of s) then tl (events_of s) else events_of s) @
     [\<lparr>ev_url = href u, ev_action = action d, ev_timestamp = now\<rparr>]"
proof -
  define s1 where "s1 =
        (if action d = ''block'' then
           showBlockPage s tab (href u) (reminder_message d)
         else if action d = ''delay'' then
           (let delayKey = hostname u
            in case still_delayed s now delayKey of
                 Some existingDelay \<Rightarrow>
                   (let remainingSeconds =
                          \<lceil>real_of_int (expiresAt existingDelay - now) / 1000\<rceil>
                    in showDelayPage s tab (href u) remainingSeconds (reminder_message d))
               | None \<Rightarrow>
                   showDelayPage
                     (s\<lparr>activeDelays :=
                          (activeDelays s)(delayKey \<mapsto>
                             \<lparr>expiresAt = now + delay_seconds d * 1000\<rparr>)\<rparr>)
                     tab (href u) (delay_seconds d) (reminder_message d))
         else if action d = ''conditional'' then
           showFocusRequirement s tab (href u) (remaining_focus_time d) (reminder_message d)
         else s)"
  have ev: "events_of s1 = events_of s"
    by (auto simp: s1_def showBlockPage_def showDelayPage_def showFocusRequirement_def
        events_of_emit Let_def events_of_def emit_def split: option.splits)
  have h: "handleBlockedNavigation s now tab u d = logBlockEvent s1 now (href u) (action d)"
    by (simp add: handleBlockedNavigation_def s1_def Let_def)
  have "events_of (logBlockEvent s1 now (href u) (action d)) =
     (if 100 \<le> length (events_of s1) then tl (events_of s1) else events_of s1) @
     [\<lparr>ev_url = href u, ev_action = action d, ev_timestamp = now\<rparr>]"
    by (cases "events_of s1")
       (auto simp: logBlockEvent_def events_of_def Let_def split: option.splits)
  then show ?thesis by (simp add: h ev)
qed

text \<open>
  Claim C10. Every call of \<^verbatim>\<open>handleBlockedNavigation\<close> appends exactly one event to
  the stored log: the URL, the decision's action and the time, after the events already
  there (the oldest of which goes when there were 100). This holds for every action;
  when the action is none of \<^verbatim>\<open>block\<close>, \<^verbatim>\<open>delay\<close>, \<^verbatim>\<open>conditional\<close>, the event is
  logged although no effect is produced (no tab is redirected) and no delay window is
  touched.
\<close>

theorem router_appends_one_event:
  "events_of (handleBlockedNavigation s now tab u d) =
     (if 100 \<le> length (events_of s) then tl (events_of s) else events_of s) @
     [\<lparr>ev_url = href u, ev_action = action d, ev_timestamp = now\<rparr>] \<and>
   (action d \<noteq> ''block'' \<and> action d \<noteq> ''delay'' \<and> action d \<noteq> ''conditional'' \<longrightarrow>
      trace (handleBlockedNavigation s now tab u d) = trace s \<and>
      activeDelays (handleBlockedNavigation s now tab u d) = activeDelays s)"
  by (simp add: handleBlockedNavigation_events)
     (simp add: handleBlockedNavigation_def trace_logBlockEvent activeDelays_logBlockEvent)

theorem router_appends_one_event_witness:
  "events_of (handleBlockedNavigation initial_state 5 7 twitter (verdict (Some True) ''none'' 0)) =
     [\<lparr>ev_url = ''https://twitter.com/'', ev_action = ''none'', ev_timestamp = 5\<rparr>] \<and>
   trace (handleBlockedNavigation initial_state 5 7 twitter (verdict (Some True) ''none'' 0)) = []"
  using router_appends_one_event [of initial_state 5 7 twitter "verdict (Some True) ''none'' 0"]
  by (simp add: initial_state_def twitter_def verdict_def events_of_def)

subsection \<open>The focus-requirement page\<close>

text \<open>
  Claim C8. For a decision whose action is \<^verbatim>\<open>conditional\<close>, the router sends the tab
  to the focus-requirement page with the blocked URL, the minutes remaining and the
  message: the decision's own \<open>reminder_message\<close> when it has one that is not empty,
  and otherwise the default text that names the minutes. The minutes are the ceiling of
  \<open>remaining_focus_time / 60\<close>: the least \<open>m\<close> with \<open>remaining_focus_time \<le> 60 * m\<close>.
  For 125 seconds they are 3, with the decision's message and without one.
\<close>

theorem conditional_redirect_minutes:
  assumes "action d = ''conditional''"
  shows "trace (handleBlockedNavigation s now tab u d) =
           trace s @
           [TabsUpdate tab
              (FocusPage (href u) ((remaining_focus_time d + 59) div 60)
                 (case reminder_message d of
                    None \<Rightarrow>
                      ''Focus for '' @ string_of_int ((remaining_focus_time d + 59) div 60) @
                      '' more minutes to unlock this site.''
                  | Some m \<Rightarrow>
                      if m = [] then
                        ''Focus for '' @ string_of_int ((remaining_focus_time d + 59) div 60) @
                        '' more minutes to unlock this site.''
                      else m))] \<and>
         60 * ((remaining_focus_time d + 59) div 60 - 1) < remaining_focus_time d \<and>
         remaining_focus_time d \<le> 60 * ((remaining_focus_time d + 59) div 60)"
proof -
  have msg: "or_default m dflt = (case m of None \<Rightarrow> dflt | Some t \<Rightarrow> if t = [] then dflt else t)"
    for m dflt
    by (cases m) simp_all
  have "trace (handleBlockedNavigation s now tab u d) =
          trace (showFocusRequirement s tab (href u) (remaining_focus_time d) (reminder_message d))"
    using assms by (simp add: handleBlockedNavigation_def trace_logBlockEvent)
  then have "trace (handleBlockedNavigation s now tab u d) =
           trace s @
           [TabsUpdate tab
              (FocusPage (href u) ((remaining_focus_time d + 59) div 60)
                 (or_default (reminder_message d)
                    (''Focus for '' @ string_of_int ((remaining_focus_time d + 59) div 60) @
                     '' more minutes to unlock this site.'')))]"
    by (simp add: showFocusRequirement_def emit_def ceiling_div_60 Let_def)
  then have "trace (handleBlockedNavigation s now tab u d) =
           trace s @
           [TabsUpdate tab
              (FocusPage (href u) ((remaining_focus_time d + 59) div 60)
                 (case reminder_message d of
                    None \<Rightarrow>
                      ''Focus for '' @ string_of_int ((remaining_focus_time d + 59) div 60) @
                      '' more minutes to unlock this site.''
                  | Some m \<Rightarrow>
                      if m = [] then
                        ''Focus for '' @ string_of_int ((remaining_focus_time d + 59) div 60) @
                        '' more minutes to unlock this site.''
                      else m))]"
    by (simp only: msg)
  moreover have "60 * ((remaining_focus_time d + 59) div 60 - 1) < remaining_focus_time d \<and>
      remaining_focus_time d \<le> 60 * ((remaining_focus_time d + 59) div 60)"
    using ceiling_div_bounds [of 60 "remaining_focus_time d"] by (simp add: add.commute)
  ultimately show ?thesis by blast
qed

theorem conditional_redirect_minutes_witness:
  "trace (handleBlockedNavigation initial_state 0 7 twitter
            \<lparr>should_block = Some True, action = ''conditional'', delay_seconds = 0,
             reminder_message = Some ''Stay focused'', remaining_focus_time = 125\<rparr>) =
     [TabsUpdate 7 (FocusPage ''https://twitter.com/'' 3 ''Stay focused'')] \<and>
   trace (handleBlockedNavigation initial_state 0 7 twitter
            \<lparr>should_block = Some True, action = ''conditional'', delay_seconds = 0,
             reminder_message = None, remaining_focus_time = 125\<rparr>) =
     [TabsUpdate 7
        (FocusPage ''https://twitter.com/'' 3
           ''Focus for 3 more minutes to unlock this site.'')] \<and>
   trace (handleBlockedNavigation initial_state 0 7 twitter
            \<lparr>should_block = Some True, action = ''conditional'', delay_seconds = 0,
             reminder_message = Some [], remaining_focus_time = 120\<rparr>) =
     [TabsUpdate 7
        (FocusPage ''https://twitter.com/'' 2
           ''Focus for 2 more minutes to unlock this site.'')]"
  using conditional_redirect_minutes [of
      "\<lparr>should_block = Some True, action = ''conditional'', delay_seconds = 0,
        reminder_message = Some ''Stay focused'', remaining_focus_time = 125\<rparr>"
      initial_state 0 7 twitter]
    conditional_redirect_minutes [of
      "\<lparr>should_block = Some True, action = ''conditional'', delay_seconds = 0,
        reminder_message = None, remaining_focus_time = 125\<rparr>" initial_state 0 7 twitter]
    conditional_redirect_minutes [of
      "\<lparr>should_block = Some True, action = ''conditional'', delay_seconds = 0,
        reminder_message = Some [], remaining_focus_time = 120\<rparr>" initial_state 0 7 twitter]
  by (simp add: initial_state_def twitter_def string_of_int_def string_of_nat.simps)

subsection \<open>The gate on \<open>should_block\<close>\<close>

text \<open>
  Claim C9. A navigation whose decision (fresh or cached) has a \<open>should_block\<close> that is
  false or absent is not enforced, whatever the decision's action: no tab is redirected,
  no event is appended to the log, and no delay window is created or changed.
\<close>

theorem should_block_gates_enforcement:
  assumes "checkBlock s now (href (url dt)) res elapsed = (Some d, t, s1)"
    and "\<not> truthy (should_block d)"
  shows "redirects (trace (onBeforeNavigate s now dt res elapsed)) = redirects (trace s) \<and>
         local_blockEvents (onBeforeNavigate s now dt res elapsed) = local_blockEvents s \<and>
         activeDelays (onBeforeNavigate s now dt res elapsed) = activeDelays s"
proof (cases "qualifies s dt")
  case True
  then have "onBeforeNavigate s now dt res elapsed = s1"
    using assms by (simp add: onBeforeNavigate_qualifies)
  then show ?thesis using checkBlock_frame [OF assms(1)] by simp
next
  case False
  then show ?thesis by (simp add: onBeforeNavigate_filtered)
qed

theorem should_block_gates_enforcement_witness:
  "onBeforeNavigate initial_state 0 to_twitter
      (Response 200 (Some (verdict (Some False) ''block'' 0))) 3 =
     initial_state
       \<lparr>blockCache :=
          [''https://twitter.com/'' \<mapsto>
             \<lparr>decision = verdict (Some False) ''block'' 0, timestamp = 3\<rparr>],
        trace := [Fetch (CheckBlockReq ''https://twitter.com/'')]\<rparr> \<and>
   redirects (trace (onBeforeNavigate initial_state 0 to_twitter
      (Response 200 (Some (verdict None ''delay'' 60))) 3)) = [] \<and>
   local_blockEvents (onBeforeNavigate initial_state 0 to_twitter
      (Response 200 (Some (verdict None ''delay'' 60))) 3) = None \<and>
   activeDelays (onBeforeNavigate initial_state 0 to_twitter
      (Response 200 (Some (verdict None ''delay'' 60))) 3) = Map.empty"
proof -
  have c: "checkBlock initial_state 0 (href (url to_twitter))
             (Response 200 (Some (verdict None ''delay'' 60))) 3 =
           (Some (verdict None ''delay'' 60), 3,
            initial_state
              \<lparr>blockCache :=
                 [''https://twitter.com/'' \<mapsto>
                    \<lparr>decision = verdict None ''delay'' 60, timestamp = 3\<rparr>],
               trace := [Fetch (CheckBlockReq ''https://twitter.com/'')]\<rparr>)"
    by (simp add: run_defs scenario_defs)
  have n: "\<not> truthy (should_block (verdict None ''delay'' 60))"
    by (simp add: truthy_def verdict_def)
  have "onBeforeNavigate initial_state 0 to_twitter
      (Response 200 (Some (verdict (Some False) ''block'' 0))) 3 =
     initial_state
       \<lparr>blockCache :=
          [''https://twitter.com/'' \<mapsto>
             \<lparr>decision = verdict (Some False) ''block'' 0, timestamp = 3\<rparr>],
        trace := [Fetch (CheckBlockReq ''https://twitter.com/'')]\<rparr>"
    by (simp add: run_defs scenario_defs)
  then show ?thesis
    using should_block_gates_enforcement [OF c n]
    by (simp add: initial_state_def)
qed

subsection \<open>Failure of the authority call\<close>

text \<open>
  Claim C5. When a navigation that the listener does not drop misses the cache and its
  authority call fails (the fetch rejects, the status is not a success, or the body
  does not parse), the listener ends with the query and a console message as its only
  effects: no tab is redirected, nothing is logged, no delay window is touched, and the
  cache is what it was, so a later navigation to the same target misses again and
  contacts the authority again. The failure is a value (\<^verbatim>\<open>null\<close>) inside the
  listener, never an exception out of it.
\<close>

theorem authority_failure_fails_open:
  assumes "qualifies s dt"
    and "cache_hit s now (href (url dt)) = None"
    and "call_fails res"
  shows "onBeforeNavigate s now dt res elapsed =
           check_failed (emit (Fetch (CheckBlockReq (href (url dt)))) s) \<and>
         blockCache (onBeforeNavigate s now dt res elapsed) = blockCache s \<and>
         redirects (trace (onBeforeNavigate s now dt res elapsed)) = redirects (trace s) \<and>
         local_blockEvents (onBeforeNavigate s now dt res elapsed) = local_blockEvents s \<and>
         activeDelays (onBeforeNavigate s now dt res elapsed) = activeDelays s \<and>
         (\<forall>now2. now \<le> now2 \<longrightarrow>
            cache_hit (onBeforeNavigate s now dt res elapsed) now2 (href (url dt)) = None)"
proof -
  have run: "onBeforeNavigate s now dt res elapsed =
           check_failed (emit (Fetch (CheckBlockReq (href (url dt)))) s)"
    using assms by (simp add: onBeforeNavigate_qualifies checkBlock_miss_fails)
  have cache: "blockCache (onBeforeNavigate s now dt res elapsed) = blockCache s"
    by (simp add: run check_failed_def emit_def)
  have "\<forall>now2. now \<le> now2 \<longrightarrow>
            cache_hit (onBeforeNavigate s now dt res elapsed) now2 (href (url dt)) = None"
    using cache_hit_stays_missed [OF assms(2) _ cache] by blast
  moreover have "redirects (trace (onBeforeNavigate s now dt res elapsed)) = redirects (trace s)"
    by (simp add: run check_failed_def emit_def redirects_append)
  moreover have "local_blockEvents (onBeforeNavigate s now dt res elapsed) = local_blockEvents s"
    by (simp add: run check_failed_def emit_def)
  moreover have "activeDelays (onBeforeNavigate s now dt res elapsed) = activeDelays s"
    by (simp add: run check_failed_def emit_def)
  ultimately show ?thesis using run cache by blast
qed

theorem authority_failure_fails_open_witness:
  "onBeforeNavigate initial_state 0 to_twitter NetworkError 3 =
     initial_state
       \<lparr>trace := [Fetch (CheckBlockReq ''https://twitter.com/''),
                  ConsoleError ''Failed to check block status:'']\<rparr> \<and>
   onBeforeNavigate initial_state 0 to_twitter
       (Response 503 (Some (verdict (Some True) ''block'' 0))) 3 =
     initial_state
       \<lparr>trace := [Fetch (CheckBlockReq ''https://twitter.com/''),
                  ConsoleError ''Failed to check block status:'']\<rparr>"
proof -
  have q: "qualifies initial_state to_twitter"
    by (simp add: qualifies_def scenario_defs)
  have m: "cache_hit initial_state 0 (href (url to_twitter)) = None"
    by (simp add: cache_hit_def scenario_defs)
  have f1: "call_fails NetworkError"
    by (simp add: call_fails_def)
  have f2: "call_fails (Response 503 (Some (verdict (Some True) ''block'' 0)))"
    by (simp add: call_fails_def ok_def)
  show ?thesis
    using authority_failure_fails_open [OF q m f1, of 3]
      authority_failure_fails_open [OF q m f2, of 3]
    by (simp add: check_failed_def emit_def scenario_defs)
qed

subsection \<open>The delay window\<close>

text \<open>
  Claim C4. \<^verbatim>\<open>activeDelays\<close> is a map, so a domain has at most one window. When a
  \<^verbatim>\<open>delay\<close> decision is enforced for a domain whose window is still open
  (\<open>now < expiresAt\<close>), the table of windows is unchanged, and the delay page carries
  the remaining time \<open>expiresAt - now\<close> in whole seconds, rounded up, not the decision's
  \<open>delay_seconds\<close>. A window opened at \<open>t0\<close> for 300 seconds shows 200 seconds at
  \<open>t0 + 100\<close> seconds.
\<close>

theorem active_window_not_restarted:
  assumes "action d = ''delay''"
    and "activeDelays s (hostname u) = Some w"
    and "now < expiresAt w"
  shows "activeDelays (handleBlockedNavigation s now tab u d) = activeDelays s \<and>
         trace (handleBlockedNavigation s now tab u d) =
           trace s @
           [TabsUpdate tab
              (DelayPage (href u) ((expiresAt w - now + 999) div 1000)
                 (or_default (reminder_message d) ''Access will be granted soon.''))] \<and>
         1000 * ((expiresAt w - now + 999) div 1000 - 1) < expiresAt w - now \<and>
         expiresAt w - now \<le> 1000 * ((expiresAt w - now + 999) div 1000)"
proof -
  have sd: "still_delayed s now (hostname u) = Some w"
    using assms by (simp add: still_delayed_def)
  have "handleBlockedNavigation s now tab u d =
          logBlockEvent
            (showDelayPage s tab (href u) ((expiresAt w - now + 999) div 1000)
               (reminder_message d))
            now (href u) (action d)"
    using assms(1) sd
    by (simp add: handleBlockedNavigation_def Let_def ceiling_div_1000 del: of_int_diff)
  then have "activeDelays (handleBlockedNavigation s now tab u d) = activeDelays s \<and>
         trace (handleBlockedNavigation s now tab u d) =
           trace s @
           [TabsUpdate tab
              (DelayPage (href u) ((expiresAt w - now + 999) div 1000)
                 (or_default (reminder_message d) ''Access will be granted soon.''))]"
    by (simp add: activeDelays_logBlockEvent trace_logBlockEvent showDelayPage_def emit_def)
  moreover have "1000 * ((expiresAt w - now + 999) div 1000 - 1) < expiresAt w - now \<and>
      expiresAt w - now \<le> 1000 * ((expiresAt w - now + 999) div 1000)"
    using ceiling_div_bounds [of 1000 "expiresAt w - now"] by (simp add: add.commute)
  ultimately show ?thesis by blast
qed

theorem active_window_not_restarted_witness:
  "activeDelays first_visit ''reddit.com'' = Some \<lparr>expiresAt = 300000\<rparr> \<and>
   activeDelays
     (handleBlockedNavigation first_visit 100000 1 reddit (verdict (Some True) ''delay'' 300))
     ''reddit.com'' = Some \<lparr>expiresAt = 300000\<rparr> \<and>
   trace (handleBlockedNavigation first_visit 100000 1 reddit (verdict (Some True) ''delay'' 300)) =
     [Fetch (CheckBlockReq ''https://reddit.com/''),
      TabsUpdate 1 (DelayPage ''https://reddit.com/'' 300 ''Access will be granted soon.''),
      TabsUpdate 1 (DelayPage ''https://reddit.com/'' 200 ''Access will be granted soon.'')]"
proof -
  have fv: "activeDelays first_visit = [''reddit.com'' \<mapsto> \<lparr>expiresAt = 300000\<rparr>] \<and>
            trace first_visit =
              [Fetch (CheckBlockReq ''https://reddit.com/''),
               TabsUpdate 1 (DelayPage ''https://reddit.com/'' 300 ''Access will be granted soon.'')]"
    by (simp add: first_visit_def run_defs scenario_defs)
  have a: "action (verdict (Some True) ''delay'' 300) = ''delay''"
    by (simp add: verdict_def)
  have w: "activeDelays first_visit (hostname reddit) = Some \<lparr>expiresAt = 300000\<rparr>"
    using fv by (simp add: reddit_def)
  have lt: "100000 < expiresAt \<lparr>expiresAt = 300000\<rparr>"
    by simp
  show ?thesis
    using active_window_not_restarted [OF a w lt, of 1] fv
    by (simp add: reddit_def verdict_def)
qed

lemma handleBlockedNavigation_expired:
  assumes "action d = ''delay''" and "still_delayed s now (hostname u) = None"
  shows "activeDelays (handleBlockedNavigation s now tab u d) =
           (activeDelays s)(hostname u \<mapsto> \<lparr>expiresAt = now + delay_seconds d * 1000\<rparr>) \<and>
         redirects (trace (handleBlockedNavigation s now tab u d)) =
           redirects (trace s) @
           [(tab, DelayPage (href u) (delay_seconds d)
                   (or_default (reminder_message d) ''Access will be granted soon.''))]"
  using assms
  by (simp add: handleBlockedNavigation_def Let_def activeDelays_logBlockEvent
      trace_logBlockEvent showDelayPage_def emit_def redirects_append)

text \<open>
  Claim C1, as amended. For a navigation that the listener does not drop, to a domain
  whose window has expired (\<open>expiresAt \<le> now\<close>): the authority is contacted on that
  navigation exactly when the target has no cache entry younger than 30 seconds, once;
  and a \<^verbatim>\<open>delay\<close> decision in force for it, fresh or cached, with a truthy
  \<open>should_block\<close>, finds no window: it opens a new one
  (\<open>expiresAt = now + delay_seconds * 1000\<close>, at the time the decision is at hand)
  and shows the full \<open>delay_seconds\<close>.
\<close>

theorem expired_window_restarts:
  assumes "qualifies s dt"
    and "activeDelays s (hostname (url dt)) = Some w"
    and "expiresAt w \<le> now"
  shows "authority_calls (trace (onBeforeNavigate s now dt res elapsed)) =
           authority_calls (trace s) @
           (if cache_hit s now (href (url dt)) = None then [href (url dt)] else []) \<and>
         (\<forall>d t s1.
            checkBlock s now (href (url dt)) res elapsed = (Some d, t, s1) \<and>
            truthy (should_block d) \<and> action d = ''delay'' \<longrightarrow>
              activeDelays (onBeforeNavigate s now dt res elapsed) =
                (activeDelays s)(hostname (url dt) \<mapsto>
                   \<lparr>expiresAt = t + delay_seconds d * 1000\<rparr>) \<and>
              redirects (trace (onBeforeNavigate s now dt res elapsed)) =
                redirects (trace s) @
                [(tabId dt, DelayPage (href (url dt)) (delay_seconds d)
                     (or_default (reminder_message d) ''Access will be granted soon.''))])"
proof -
  obtain r t s1 where c: "checkBlock s now (href (url dt)) res elapsed = (r, t, s1)"
    by (cases "checkBlock s now (href (url dt)) res elapsed") auto
  note frame = checkBlock_frame [OF c]
  have calls: "authority_calls (trace (onBeforeNavigate s now dt res elapsed)) =
           authority_calls (trace s) @
           (if cache_hit s now (href (url dt)) = None then [href (url dt)] else [])"
    using assms(1) c checkBlock_calls [OF c]
    by (cases r) (simp_all add: onBeforeNavigate_qualifies handleBlockedNavigation_calls)
  have "activeDelays (onBeforeNavigate s now dt res elapsed) =
                (activeDelays s)(hostname (url dt) \<mapsto>
                   \<lparr>expiresAt = t + delay_seconds d * 1000\<rparr>) \<and>
              redirects (trace (onBeforeNavigate s now dt res elapsed)) =
                redirects (trace s) @
                [(tabId dt, DelayPage (href (url dt)) (delay_seconds d)
                     (or_default (reminder_message d) ''Access will be granted soon.''))]"
    if "r = Some d" and "truthy (should_block d)" and "action d = ''delay''" for d
  proof -
    have "still_delayed s1 t (hostname (url dt)) = None"
      using assms(2,3) frame by (simp add: still_delayed_def)
    then show ?thesis
      using handleBlockedNavigation_expired [OF that(3), of s1 t "url dt" "tabId dt"]
        assms(1) c that(1,2) frame
      by (simp add: onBeforeNavigate_qualifies)
  qed
  then show ?thesis using calls c by simp
qed

theorem expired_window_restarts_witness:
  "authority_calls (trace (onBeforeNavigate short_visit 45000 to_reddit
      (Response 200 (Some (verdict (Some True) ''delay'' 20))) 7)) =
     [''https://reddit.com/'', ''https://reddit.com/''] \<and>
   activeDelays (onBeforeNavigate short_visit 45000 to_reddit
      (Response 200 (Some (verdict (Some True) ''delay'' 20))) 7) =
     [''reddit.com'' \<mapsto> \<lparr>expiresAt = 65007\<rparr>] \<and>
   redirects (trace (onBeforeNavigate short_visit 45000 to_reddit
      (Response 200 (Some (verdict (Some True) ''delay'' 20))) 7)) =
     [(1, DelayPage ''https://reddit.com/'' 10 ''Access will be granted soon.''),
      (1, DelayPage ''https://reddit.com/'' 20 ''Access will be granted soon.'')]"
proof -
  have sv: "short_visit =
     initial_state
       \<lparr>blockCache :=
          [''https://reddit.com/'' \<mapsto>
             \<lparr>decision = verdict (Some True) ''delay'' 10, timestamp = 0\<rparr>],
        activeDelays := [''reddit.com'' \<mapsto> \<lparr>expiresAt = 10000\<rparr>],
        local_blockEvents :=
          Some [\<lparr>ev_url = ''https://reddit.com/'', ev_action = ''delay'', ev_timestamp = 0\<rparr>],
        trace :=
          [Fetch (CheckBlockReq ''https://reddit.com/''),
           TabsUpdate 1 (DelayPage ''https://reddit.com/'' 10 ''Access will be granted soon.'')]\<rparr>"
    by (simp add: short_visit_def run_defs scenario_defs)
  have q: "qualifies short_visit to_reddit"
    by (simp add: sv qualifies_def scenario_defs)
  have w: "activeDelays short_visit (hostname (url to_reddit)) = Some \<lparr>expiresAt = 10000\<rparr>"
    by (simp add: sv scenario_defs)
  have e: "expiresAt \<lparr>expiresAt = 10000\<rparr> \<le> 45000"
    by simp
  have c: "checkBlock short_visit 45000 (href (url to_reddit))
             (Response 200 (Some (verdict (Some True) ''delay'' 20))) 7 =
           (Some (verdict (Some True) ''delay'' 20), 45007,
            short_visit
              \<lparr>blockCache :=
                 [''https://reddit.com/'' \<mapsto>
                    \<lparr>decision = verdict (Some True) ''delay'' 20, timestamp = 45007\<rparr>],
               trace := trace short_visit @ [Fetch (CheckBlockReq ''https://reddit.com/'')]\<rparr>)"
    by (simp add: sv run_defs scenario_defs)
  have m: "cache_hit short_visit 45000 (href (url to_reddit)) = None"
    by (simp add: sv run_defs scenario_defs)
  show ?thesis
    using expired_window_restarts [OF q w e, of
        "Response 200 (Some (verdict (Some True) ''delay'' 20))" 7] c m
    by (simp add: sv scenario_defs truthy_def)
qed

text \<open>
  Claim C1 as stated fails. A 10-second window for reddit.com expires at 10000; the
  decision that opened it was cached at 0. The navigation at 15000 is served from the
  cache: the authority, which would now answer that nothing is to be blocked, is not
  contacted, and the cached decision opens a new window that ends at 25000.
\<close>

theorem cached_decision_restarts_expired_window:
  "activeDelays short_visit ''reddit.com'' = Some \<lparr>expiresAt = 10000\<rparr> \<and>
   authority_calls (trace short_visit) = [''https://reddit.com/''] \<and>
   authority_calls (trace (onBeforeNavigate short_visit 15000 to_reddit
      (Response 200 (Some (verdict (Some False) ''none'' 0))) 7)) = [''https://reddit.com/''] \<and>
   activeDelays (onBeforeNavigate short_visit 15000 to_reddit
      (Response 200 (Some (verdict (Some False) ''none'' 0))) 7) ''reddit.com'' =
     Some \<lparr>expiresAt = 25000\<rparr> \<and>
   redirects (trace (onBeforeNavigate short_visit 15000 to_reddit
      (Response 200 (Some (verdict (Some False) ''none'' 0))) 7)) =
     [(1, DelayPage ''https://reddit.com/'' 10 ''Access will be granted soon.''),
      (1, DelayPage ''https://reddit.com/'' 10 ''Access will be granted soon.'')]"
  by (simp add: short_visit_def run_defs scenario_defs)

subsection \<open>The decision cache\<close>

text \<open>
  Claim C3, as amended. For a target with a cache entry: a lookup less than 30000 ms
  after the entry's timestamp returns the stored decision with no authority call and no
  change of state; a lookup 30000 ms or more after it is a miss and makes exactly one
  authority call. The lookup does not remove the stale entry: a failed call leaves the
  cache as it was, and a successful one overwrites the entry with the fresh decision and
  the time of its arrival.
\<close>

theorem cache_ttl_lookup:
  assumes "blockCache s u = Some c"
  shows "(now - timestamp c < 30000 \<longrightarrow>
            checkBlock s now u res elapsed = (Some (decision c), now, s)) \<and>
         (30000 \<le> now - timestamp c \<longrightarrow>
            authority_calls (trace (snd (snd (checkBlock s now u res elapsed)))) =
              authority_calls (trace s) @ [u] \<and>
            (call_fails res \<longrightarrow>
               fst (checkBlock s now u res elapsed) = None \<and>
               blockCache (snd (snd (checkBlock s now u res elapsed))) = blockCache s) \<and>
            (\<forall>st d. res = Response st (Some d) \<and> ok st \<longrightarrow>
               fst (checkBlock s now u res elapsed) = Some d \<and>
               blockCache (snd (snd (checkBlock s now u res elapsed))) =
                 (blockCache s)(u \<mapsto> \<lparr>decision = d, timestamp = now + int elapsed\<rparr>)))"
proof (cases "now - timestamp c < 30000")
  case True
  then have "cache_hit s now u = Some (decision c)"
    using assms by (simp add: cache_hit_def CACHE_DURATION_def)
  then show ?thesis using True by (simp add: checkBlock_hit)
next
  case False
  then have miss: "cache_hit s now u = None"
    using assms by (simp add: cache_hit_def CACHE_DURATION_def)
  have calls: "authority_calls (trace (snd (snd (checkBlock s now u res elapsed)))) =
              authority_calls (trace s) @ [u]"
    using checkBlock_calls [of s now u res elapsed] miss
    by (cases "checkBlock s now u res elapsed") simp
  have fails: "call_fails res \<longrightarrow>
               fst (checkBlock s now u res elapsed) = None \<and>
               blockCache (snd (snd (checkBlock s now u res elapsed))) = blockCache s"
    using miss by (simp add: checkBlock_miss_fails check_failed_def emit_def)
  have succeeds: "\<forall>st d. res = Response st (Some d) \<and> ok st \<longrightarrow>
               fst (checkBlock s now u res elapsed) = Some d \<and>
               blockCache (snd (snd (checkBlock s now u res elapsed))) =
                 (blockCache s)(u \<mapsto> \<lparr>decision = d, timestamp = now + int elapsed\<rparr>)"
    using miss by (simp add: checkBlock_miss_ok)
  show ?thesis using False calls fails succeeds by blast
qed

theorem cache_ttl_lookup_witness:
  "checkBlock first_visit 29999 ''https://reddit.com/'' NetworkError 5 =
     (Some (verdict (Some True) ''delay'' 300), 29999, first_visit) \<and>
   authority_calls (trace (snd (snd
     (checkBlock first_visit 30000 ''https://reddit.com/''
        (Response 200 (Some (verdict (Some False) ''none'' 0))) 5)))) =
     [''https://reddit.com/'', ''https://reddit.com/''] \<and>
   blockCache (snd (snd
     (checkBlock first_visit 30000 ''https://reddit.com/''
        (Response 200 (Some (verdict (Some False) ''none'' 0))) 5))) ''https://reddit.com/'' =
     Some \<lparr>decision = verdict (Some False) ''none'' 0, timestamp = 30005\<rparr>"
proof -
  have c: "blockCache first_visit ''https://reddit.com/'' =
             Some \<lparr>decision = verdict (Some True) ''delay'' 300, timestamp = 0\<rparr>"
    by (simp add: first_visit_def run_defs scenario_defs)
  have t: "authority_calls (trace first_visit) = [''https://reddit.com/'']"
    by (simp add: first_visit_def run_defs scenario_defs)
  show ?thesis
    using cache_ttl_lookup [OF c, of 29999 NetworkError 5]
      cache_ttl_lookup [OF c, of 30000 "Response 200 (Some (verdict (Some False) ''none'' 0))" 5]
      t
    by (simp add: ok_def)
qed

text \<open>
  Claim C3 as stated fails. The entry cached at 0 is looked up at 40000, a miss, and the
  authority call fails: the stale entry is still in the cache.
\<close>

theorem stale_entry_not_evicted:
  "cache_hit first_visit 40000 ''https://reddit.com/'' = None \<and>
   blockCache (snd (snd (checkBlock first_visit 40000 ''https://reddit.com/'' NetworkError 5)))
     ''https://reddit.com/'' =
     Some \<lparr>decision = verdict (Some True) ''delay'' 300, timestamp = 0\<rparr>"
  by (simp add: first_visit_def run_defs scenario_defs)

subsection \<open>Override\<close>

text \<open>
  Claim C2, as amended. The message \<^verbatim>\<open>overrideBlock\<close> for a target removes the delay
  window of the target's domain and the cache entry of exactly the target (so that any
  later lookup of the target is a miss), answers success, and sends one override report
  to the authority; a report that fails adds a console message and nothing else. The
  stored event log is left as it was: the override is recorded with the authority only.
\<close>

theorem override_local_effects:
  "fst (onMessage s now (OverrideBlock u) res) = SuccessResponse \<and>
   activeDelays (snd (onMessage s now (OverrideBlock u) res)) =
     (activeDelays s)(hostname u := None) \<and>
   blockCache (snd (onMessage s now (OverrideBlock u) res)) =
     (blockCache s)(href u := None) \<and>
   cache_hit (snd (onMessage s now (OverrideBlock u) res)) now2 (href u) = None \<and>
   local_blockEvents (snd (onMessage s now (OverrideBlock u) res)) = local_blockEvents s \<and>
   trace (snd (onMessage s now (OverrideBlock u) res)) =
     trace s @ Fetch (OverrideReq (href u) now) #
       (case res of
          NetworkError \<Rightarrow> [ConsoleError ''Failed to log override:'']
        | Response st body \<Rightarrow> [])"
  by (cases res) (simp_all add: logOverride_def emit_def cache_hit_def Let_def)

theorem override_local_effects_witness:
  "snd (onMessage first_visit 50000 (OverrideBlock reddit) NetworkError) =
     initial_state
       \<lparr>local_blockEvents :=
          Some [\<lparr>ev_url = ''https://reddit.com/'', ev_action = ''delay'', ev_timestamp = 0\<rparr>],
        trace :=
          [Fetch (CheckBlockReq ''https://reddit.com/''),
           TabsUpdate 1 (DelayPage ''https://reddit.com/'' 300 ''Access will be granted soon.''),
           Fetch (OverrideReq ''https://reddit.com/'' 50000),
           ConsoleError ''Failed to log override:'']\<rparr> \<and>
   cache_hit (snd (onMessage first_visit 50000 (OverrideBlock reddit) NetworkError)) 50001
     ''https://reddit.com/'' = None"
proof -
  have "snd (onMessage first_visit 50000 (OverrideBlock reddit) NetworkError) =
     initial_state
       \<lparr>local_blockEvents :=
          Some [\<lparr>ev_url = ''https://reddit.com/'', ev_action = ''delay'', ev_timestamp = 0\<rparr>],
        trace :=
          [Fetch (CheckBlockReq ''https://reddit.com/''),
           TabsUpdate 1 (DelayPage ''https://reddit.com/'' 300 ''Access will be granted soon.''),
           Fetch (OverrideReq ''https://reddit.com/'' 50000),
           ConsoleError ''Failed to log override:'']\<rparr>"
    by (simp add: first_visit_def run_defs scenario_defs)
  moreover have "href reddit = ''https://reddit.com/''"
    by (simp add: reddit_def)
  ultimately show ?thesis
    using override_local_effects [of first_visit 50000 reddit NetworkError 50001]
    by metis
qed

text \<open>
  Claim C2 as stated fails. After the first visit the log holds one event; after the
  override of that target it holds the same one event and no override record.
\<close>

theorem override_appends_no_event:
  "events_of first_visit =
     [\<lparr>ev_url = ''https://reddit.com/'', ev_action = ''delay'', ev_timestamp = 0\<rparr>] \<and>
   events_of (snd (onMessage first_visit 50000 (OverrideBlock reddit) (Response 200 None))) =
     [\<lparr>ev_url = ''https://reddit.com/'', ev_action = ''delay'', ev_timestamp = 0\<rparr>]"
  by (simp add: first_visit_def events_of_def run_defs scenario_defs)

subsection \<open>The toggle\<close>

text \<open>
  Claim C6, where the code departs from it. Both mutations of the toggle (the popup's
  message and the context menu) write the new value to storage. The module's start
  sets \<^verbatim>\<open>extensionEnabled\<close> to true and leaves the stored \<^verbatim>\<open>enabled\<close> as it is: the
  stored value is never read back into the flag. So once the user has switched the
  extension off and the worker has started again, the stored toggle says off and the
  flag says on. In the instance after the theorem a navigation is left alone while the
  extension is off, and the same navigation is sent to the block page after the
  restart.
\<close>

theorem start_ignores_stored_toggle:
  assumes "extensionEnabled s"
  shows "\<not> extensionEnabled (snd (onMessage s now ToggleExtension res)) \<and>
         sync_enabled (snd (onMessage s now ToggleExtension res)) = Some False \<and>
         sync_enabled (worker_start (snd (onMessage s now ToggleExtension res))) = Some False \<and>
         extensionEnabled (worker_start (snd (onMessage s now ToggleExtension res))) \<and>
         \<not> extensionEnabled (onClicked s ''toggle-focus-mode'') \<and>
         sync_enabled (worker_start (onClicked s ''toggle-focus-mode'')) = Some False \<and>
         extensionEnabled (worker_start (onClicked s ''toggle-focus-mode''))"
  using assms by (simp add: worker_start_def onClicked_def updateBadge_def emit_def Let_def)

theorem start_ignores_stored_toggle_witness:
  "sync_enabled (onInstalled initial_state) = Some True \<and>
   extensionEnabled switched_off = False \<and>
   sync_enabled switched_off = Some False \<and>
   onBeforeNavigate switched_off 2000 to_twitter
     (Response 200 (Some (verdict (Some True) ''block'' 0))) 0 = switched_off \<and>
   sync_enabled (worker_start switched_off) = Some False \<and>
   extensionEnabled (worker_start switched_off) = True \<and>
   redirects (trace (onBeforeNavigate (worker_start switched_off) 2000 to_twitter
     (Response 200 (Some (verdict (Some True) ''block'' 0))) 0)) =
     [(7, BlockedPage ''https://twitter.com/'' ''This site is blocked during focus time.'')]"
proof -
  have so: "switched_off =
     initial_state
       \<lparr>extensionEnabled := False, sync_enabled := Some False,
        sync_apiUrl := Some ''http://localhost:5000'',
        trace := [ContextMenusCreate ''toggle-focus-mode'', SetInterval 5000]\<rparr>"
    by (simp add: switched_off_def onInstalled_def startMonitoring_def emit_def truthy_def
        API_BASE_URL_def CHECK_INTERVAL_def initial_state_def Let_def)
  have "sync_enabled (onInstalled initial_state) = Some True"
    by (simp add: onInstalled_def startMonitoring_def emit_def truthy_def initial_state_def
        Let_def)
  moreover have "onBeforeNavigate switched_off 2000 to_twitter
     (Response 200 (Some (verdict (Some True) ''block'' 0))) 0 = switched_off"
    by (simp add: so onBeforeNavigate_def scenario_defs)
  moreover have "redirects (trace (onBeforeNavigate (worker_start switched_off) 2000 to_twitter
     (Response 200 (Some (verdict (Some True) ''block'' 0))) 0)) =
     [(7, BlockedPage ''https://twitter.com/'' ''This site is blocked during focus time.'')]"
    by (simp add: so worker_start_def run_defs scenario_defs)
  moreover have "extensionEnabled (onInstalled initial_state)"
    by (simp add: onInstalled_def startMonitoring_def emit_def truthy_def initial_state_def
        Let_def)
  ultimately show ?thesis
    using start_ignores_stored_toggle [of "onInstalled initial_state" 1000 NetworkError]
    by (simp add: switched_off_def)
qed

end
